theory Spec2Isabelle
  imports Main "HOL-Library.Word"
begin

section \<open>JavaScript strings\<close>

text \<open>
  A JavaScript string is a sequence of 16-bit code units. \<open>js\<close> embeds an ASCII
  literal; the line terminators, which the regular expression atom \<^verbatim>\<open>.\<close> does not
  match, are LF, CR, U+2028 and U+2029.
\<close>

type_synonym jschar = "16 word"
type_synonym jsstring = "jschar list"

definition js :: "string \<Rightarrow> jsstring" where
  "js s = map of_char s"

abbreviation SEMICOLON :: jschar where "SEMICOLON \<equiv> 0x3B"
abbreviation EQUALS :: jschar where "EQUALS \<equiv> 0x3D"
abbreviation SPACE :: jschar where "SPACE \<equiv> 0x20"
abbreviation TAB :: jschar where "TAB \<equiv> 0x09"

definition is_line_terminator :: "jschar \<Rightarrow> bool" where
  "is_line_terminator c = (c = 0x0A \<or> c = 0x0D \<or> c = 0x2028 \<or> c = 0x2029)"

text \<open>
  \<^verbatim>\<open>s.split(d)\<close> for a one-character separator: the text before the first separator,
  then the split of what follows it. A string without separator (the empty string too) is
  one segment.
\<close>

function split_on :: "'a \<Rightarrow> 'a list \<Rightarrow> 'a list list" where
  "split_on d s =
     (case dropWhile (\<lambda>c. c \<noteq> d) s of
        [] \<Rightarrow> [s]
      | _ # rest \<Rightarrow> takeWhile (\<lambda>c. c \<noteq> d) s # split_on d rest)"
  by pat_completeness auto
termination
proof (relation "measure (\<lambda>(d, s). length s)")
  show "wf (measure (\<lambda>(d, s). length s))" by simp
next
  fix d :: 'a and s :: "'a list" and c rest
  assume "dropWhile (\<lambda>c. c \<noteq> d) s = c # rest"
  then have "length (c # rest) \<le> length s"
    by (metis length_dropWhile_le)
  then show "((d, rest), (d, s)) \<in> measure (\<lambda>(d, s). length s)" by simp
qed

declare split_on.simps [simp del]

text \<open>\<^verbatim>\<open>cookie.replace(/^ +/, "")\<close>: the run of spaces at the start of the string is removed.\<close>

definition strip_leading_spaces :: "jsstring \<Rightarrow> jsstring" where
  "strip_leading_spaces s = dropWhile (\<lambda>c. c = SPACE) s"

text \<open>
  \<^verbatim>\<open>s.replace(/=.*/, r)\<close> for a replacement \<open>r\<close> without \<^verbatim>\<open>$\<close>: the leftmost \<^verbatim>\<open>=\<close>
  and the longest run of characters other than line terminators after it are replaced by
  \<open>r\<close>; a string without \<^verbatim>\<open>=\<close> is returned as it is.
\<close>

definition replace_from_equals :: "jsstring \<Rightarrow> jsstring \<Rightarrow> jsstring" where
  "replace_from_equals r s =
     (case dropWhile (\<lambda>c. c \<noteq> EQUALS) s of
        [] \<Rightarrow> s
      | _ # after \<Rightarrow>
          takeWhile (\<lambda>c. c \<noteq> EQUALS) s @ r @ dropWhile (\<lambda>c. \<not> is_line_terminator c) after)"

text \<open>\<^verbatim>\<open>new Date(0).toUTCString()\<close>\<close>

definition epoch_utc :: jsstring where
  "epoch_utc = js ''Thu, 01 Jan 1970 00:00:00 GMT''"

text \<open>The template literal \<^verbatim>\<open>`=;expires=${new Date(0).toUTCString()};path=/`\<close>\<close>

definition expiry_replacement :: jsstring where
  "expiry_replacement = js ''=;expires='' @ epoch_utc @ js '';path=/''"

text \<open>The string that the \<^verbatim>\<open>forEach\<close> callback assigns to \<^verbatim>\<open>document.cookie\<close>.\<close>

definition expire_cookie :: "jsstring \<Rightarrow> jsstring" where
  "expire_cookie cookie = replace_from_equals expiry_replacement (strip_leading_spaces cookie)"

section \<open>The browser\<close>

subsection \<open>Cookie surface\<close>

text \<open>
  Modelled from the spec: the cookie surface of the hosting document (read all cookies as
  one delimited string; write one cookie assignment at a time) is the browser's, and the
  repository only calls it. What the cookie store holds, what reading
  \<^verbatim>\<open>document.cookie\<close> returns for a store and what an assignment to
  \<^verbatim>\<open>document.cookie\<close> does to a store are therefore parts of the browser state below:
  a type \<open>'j\<close> of stores and the two functions \<open>cookie_getter\<close> and
  \<open>cookie_setter\<close>. The definitions of the hook assume nothing about them.
\<close>

subsection \<open>State\<close>

text \<open>
  Function objects are compared by reference. \<open>HostFn n\<close> is a function object that
  existed before the hook ran; \<open>EmptyFn r slot\<close> is the object that the function
  expression \<^verbatim>\<open>function () {}\<close> assigned to \<^verbatim>\<open>console.<slot>\<close> creates in the
  \<open>r\<close>-th run of the effect. Calling an \<open>EmptyFn\<close> does nothing; what calling a host
  function prints is a parameter of \<open>invoke\<close>.
\<close>

datatype jsfun = HostFn nat | EmptyFn nat string

definition invoke :: "(nat \<Rightarrow> jsstring list \<Rightarrow> jsstring list) \<Rightarrow> jsfun \<Rightarrow> jsstring list \<Rightarrow> jsstring list" where
  "invoke host f args = (case f of HostFn n \<Rightarrow> host n args | EmptyFn r slot \<Rightarrow> [])"

record console_obj =
  log :: jsfun
  warn :: jsfun
  error :: jsfun
  debug :: jsfun
  info :: jsfun

text \<open>
  The three arrow functions of the effect are closures, created anew by every run of the
  effect; \<open>HostListener\<close> stands for the listeners of the hosting page.
\<close>

datatype listener =
    HostListener nat
  | DetectDevTools nat
  | DisableRightClick nat
  | DisableKeyboardShortcuts nat

datatype js_error = SecurityError | TypeError

datatype outcome = Returned | Threw js_error

text \<open>The calls that a handler makes on the browser, in the order it makes them.\<close>

datatype effect =
    PreventDefault
  | LocalStorageClear
  | SessionStorageClear
  | CookieRead
  | CookieAssign jsstring

type_synonym storage = "(jsstring \<times> jsstring) list"

text \<open>
  Modelled from the spec: a collaborator surface may throw in the hosting context (privacy
  restrictions). A storage area or the cookie jar is \<open>None\<close> where the hosting context
  denies it: every access then throws a \<open>SecurityError\<close>. The four readings of the
  viewport are integers.
\<close>

record 'j browser =
  outerWidth :: int
  innerWidth :: int
  outerHeight :: int
  innerHeight :: int
  localStorage :: "storage option"
  sessionStorage :: "storage option"
  cookie :: "'j option"
  cookie_getter :: "'j \<Rightarrow> jsstring"
  cookie_setter :: "jsstring \<Rightarrow> 'j \<Rightarrow> 'j"
  console :: console_obj
  window_listeners :: "(string \<times> listener) list"
  document_listeners :: "(string \<times> listener) list"
  effect_runs :: nat
  trace :: "effect list"

text \<open>
  An event as the handlers read it. \<open>keyCode\<close> is \<open>None\<close> on an event that has no such
  property (the event of a resize); the argument of a handler is \<open>None\<close> when it is
  \<^verbatim>\<open>undefined\<close>.
\<close>

record event =
  keyCode :: "nat option"
  ctrlKey :: bool
  shiftKey :: bool

section \<open>The wipe: \<^verbatim>\<open>handleDevToolsOpen\<close>\<close>

text \<open>
  Lines 82 to 91 of \<^verbatim>\<open>useAntiInspect.js\<close>: \<^verbatim>\<open>localStorage.clear()\<close>, then
  \<^verbatim>\<open>sessionStorage.clear()\<close>, then the loop over \<^verbatim>\<open>document.cookie.split(";")\<close>.
  There is no \<^verbatim>\<open>try\<close> in the file: a call that throws ends the function, and the
  handler that called it, with that error. Every call is entered in the trace when it is
  made, whether it then throws or not.
\<close>

definition called :: "effect \<Rightarrow> 'j browser \<Rightarrow> 'j browser" where
  "called x w = w\<lparr>trace := trace w @ [x]\<rparr>"

definition localStorage_clear :: "'j browser \<Rightarrow> outcome \<times> 'j browser" where
  "localStorage_clear w =
     (case localStorage w of
        None \<Rightarrow> (Threw SecurityError, called LocalStorageClear w)
      | Some items \<Rightarrow> (Returned, (called LocalStorageClear w)\<lparr>localStorage := Some []\<rparr>))"

definition sessionStorage_clear :: "'j browser \<Rightarrow> outcome \<times> 'j browser" where
  "sessionStorage_clear w =
     (case sessionStorage w of
        None \<Rightarrow> (Threw SecurityError, called SessionStorageClear w)
      | Some items \<Rightarrow> (Returned, (called SessionStorageClear w)\<lparr>sessionStorage := Some []\<rparr>))"

definition cookie_read :: "'j browser \<Rightarrow> (js_error + jsstring) \<times> 'j browser" where
  "cookie_read w =
     (case cookie w of
        None \<Rightarrow> (Inl SecurityError, called CookieRead w)
      | Some j \<Rightarrow> (Inr (cookie_getter w j), called CookieRead w))"

definition cookie_assign :: "jsstring \<Rightarrow> 'j browser \<Rightarrow> outcome \<times> 'j browser" where
  "cookie_assign s w =
     (case cookie w of
        None \<Rightarrow> (Threw SecurityError, called (CookieAssign s) w)
      | Some j \<Rightarrow> (Returned, (called (CookieAssign s) w)\<lparr>cookie := Some (cookie_setter w s j)\<rparr>))"

text \<open>The \<^verbatim>\<open>forEach\<close> over the segments; a throw in the callback leaves the loop.\<close>

fun forEach_expire :: "jsstring list \<Rightarrow> 'j browser \<Rightarrow> outcome \<times> 'j browser" where
  "forEach_expire [] w = (Returned, w)"
| "forEach_expire (c # cs) w =
     (case cookie_assign (expire_cookie c) w of
        (Threw e, w') \<Rightarrow> (Threw e, w')
      | (Returned, w') \<Rightarrow> forEach_expire cs w')"

definition handleDevToolsOpen :: "'j browser \<Rightarrow> outcome \<times> 'j browser" where
  "handleDevToolsOpen w =
     (case localStorage_clear w of
        (Threw e, w1) \<Rightarrow> (Threw e, w1)
      | (Returned, w1) \<Rightarrow>
          (case sessionStorage_clear w1 of
             (Threw e, w2) \<Rightarrow> (Threw e, w2)
           | (Returned, w2) \<Rightarrow>
               (case cookie_read w2 of
                  (Inl e, w3) \<Rightarrow> (Threw e, w3)
                | (Inr s, w3) \<Rightarrow> forEach_expire (split_on SEMICOLON s) w3)))"

section \<open>The handlers\<close>

text \<open>
  \<^verbatim>\<open>detectDevTools\<close> (lines 22 to 31) is the listener for \<^verbatim>\<open>resize\<close>,
  \<^verbatim>\<open>disableRightClick\<close> (lines 39 to 42) for \<^verbatim>\<open>contextmenu\<close> and
  \<^verbatim>\<open>disableKeyboardShortcuts\<close> (lines 58 to 72) for \<^verbatim>\<open>keydown\<close>.
\<close>

definition detectDevTools :: "event option \<Rightarrow> 'j browser \<Rightarrow> outcome \<times> 'j browser" where
  "detectDevTools e w =
     (let widthThreshold = outerWidth w - innerWidth w > 160;
          heightThreshold = outerHeight w - innerHeight w > 160;
          isF12 = (case e of None \<Rightarrow> False | Some ev \<Rightarrow> keyCode ev = Some 123)
      in if widthThreshold \<or> heightThreshold \<or> isF12 then handleDevToolsOpen w
         else (Returned, w))"

text \<open>
  \<^verbatim>\<open>e.preventDefault()\<close> and \<^verbatim>\<open>e.ctrlKey\<close> on an undefined \<open>e\<close> throw a
  \<open>TypeError\<close>; \<^verbatim>\<open>e?.keyCode\<close> above does not.
\<close>

definition disableRightClick :: "event option \<Rightarrow> 'j browser \<Rightarrow> outcome \<times> 'j browser" where
  "disableRightClick e w =
     (case e of
        None \<Rightarrow> (Threw TypeError, w)
      | Some ev \<Rightarrow> handleDevToolsOpen (called PreventDefault w))"

definition disableKeyboardShortcuts :: "event option \<Rightarrow> 'j browser \<Rightarrow> outcome \<times> 'j browser" where
  "disableKeyboardShortcuts e w =
     (case e of
        None \<Rightarrow> (Threw TypeError, w)
      | Some ev \<Rightarrow>
          if (ctrlKey ev \<and> shiftKey ev \<and>
                (keyCode ev = Some 73 \<or> keyCode ev = Some 74 \<or> keyCode ev = Some 67)) \<or>
             (ctrlKey ev \<and> keyCode ev = Some 85) \<or>
             keyCode ev = Some 123
          then handleDevToolsOpen (called PreventDefault w)
          else (Returned, w))"

section \<open>The effect and its cleanup\<close>

text \<open>Lines 93 to 110: the subscriptions, the silencing of the console, and the cleanup.\<close>

text \<open>
  \<^verbatim>\<open>addEventListener\<close> appends the listener unless the target already has it for that
  event type; \<^verbatim>\<open>removeEventListener\<close> removes it, and does nothing when it is not there.
\<close>

definition addEventListener ::
  "string \<Rightarrow> listener \<Rightarrow> (string \<times> listener) list \<Rightarrow> (string \<times> listener) list" where
  "addEventListener t cb ls = (if (t, cb) \<in> set ls then ls else ls @ [(t, cb)])"

definition removeEventListener ::
  "string \<Rightarrow> listener \<Rightarrow> (string \<times> listener) list \<Rightarrow> (string \<times> listener) list" where
  "removeEventListener t cb ls = removeAll (t, cb) ls"

text \<open>What the cleanup function closes over.\<close>

record cleanup_closure =
  c_detectDevTools :: listener
  c_disableRightClick :: listener
  c_disableKeyboardShortcuts :: listener
  consoleOutput :: jsfun

text \<open>
  The function that \<^verbatim>\<open>useAntiInspect\<close> passes to \<^verbatim>\<open>useEffect\<close> with an empty list of
  dependencies: it runs when the component is mounted and returns the cleanup function,
  which runs when the component is unmounted.
\<close>

definition useAntiInspect_effect :: "'j browser \<Rightarrow> cleanup_closure \<times> 'j browser" where
  "useAntiInspect_effect w =
     (let r = effect_runs w;
          w1 = w\<lparr>effect_runs := r + 1\<rparr>;
          w2 = w1\<lparr>window_listeners :=
                   addEventListener ''resize'' (DetectDevTools r) (window_listeners w1)\<rparr>;
          w3 = w2\<lparr>document_listeners :=
                   addEventListener ''contextmenu'' (DisableRightClick r) (document_listeners w2)\<rparr>;
          w4 = w3\<lparr>document_listeners :=
                   addEventListener ''keydown'' (DisableKeyboardShortcuts r) (document_listeners w3)\<rparr>;
          saved = log (console w4);
          w5 = w4\<lparr>console := (console w4)\<lparr>log := EmptyFn r ''log''\<rparr>\<rparr>;
          w6 = w5\<lparr>console := (console w5)\<lparr>warn := EmptyFn r ''warn''\<rparr>\<rparr>;
          w7 = w6\<lparr>console := (console w6)\<lparr>error := EmptyFn r ''error''\<rparr>\<rparr>;
          w8 = w7\<lparr>console := (console w7)\<lparr>debug := EmptyFn r ''debug''\<rparr>\<rparr>;
          w9 = w8\<lparr>console := (console w8)\<lparr>info := EmptyFn r ''info''\<rparr>\<rparr>
      in (\<lparr>c_detectDevTools = DetectDevTools r,
           c_disableRightClick = DisableRightClick r,
           c_disableKeyboardShortcuts = DisableKeyboardShortcuts r,
           consoleOutput = saved\<rparr>, w9))"

definition cleanup :: "cleanup_closure \<Rightarrow> 'j browser \<Rightarrow> outcome \<times> 'j browser" where
  "cleanup c w =
     (let w1 = w\<lparr>window_listeners :=
                   removeEventListener ''resize'' (c_detectDevTools c) (window_listeners w)\<rparr>;
          w2 = w1\<lparr>document_listeners :=
                   removeEventListener ''contextmenu'' (c_disableRightClick c) (document_listeners w1)\<rparr>;
          w3 = w2\<lparr>document_listeners :=
                   removeEventListener ''keydown'' (c_disableKeyboardShortcuts c) (document_listeners w2)\<rparr>
      in (Returned, w3\<lparr>console := (console w3)\<lparr>log := consoleOutput c\<rparr>\<rparr>))"

section \<open>Observations\<close>

text \<open>
  The calls that a run of a handler added to the trace, and whether the wipe was among
  them: every run of \<open>handleDevToolsOpen\<close> starts with the call of
  \<^verbatim>\<open>localStorage.clear()\<close>, and nothing else makes that call.
\<close>

definition new_calls :: "'j browser \<Rightarrow> outcome \<times> 'j browser \<Rightarrow> effect list" where
  "new_calls w r = drop (length (trace w)) (trace (snd r))"

definition reaction_ran :: "'j browser \<Rightarrow> outcome \<times> 'j browser \<Rightarrow> bool" where
  "reaction_ran w r = (LocalStorageClear \<in> set (new_calls w r))"

text \<open>
  The strings that one run of the wipe assigns to \<^verbatim>\<open>document.cookie\<close> when the cookie
  string read is \<open>s\<close>: one per segment, in order.
\<close>

definition expiry_assignments :: "jsstring \<Rightarrow> jsstring list" where
  "expiry_assignments s = map expire_cookie (split_on SEMICOLON s)"

section \<open>The words of the specification\<close>







section \<open>Cookie strings\<close>

text \<open>
  Modelled from the spec: the string that a read of \<^verbatim>\<open>document.cookie\<close> returns
  for the cookies visible to the document, given as name and value: \<^verbatim>\<open>name=value\<close>,
  or the value alone for a cookie without a name, joined by \<^verbatim>\<open>"; "\<close>.
\<close>

type_synonym jar = "(jsstring \<times> jsstring) list"

definition cookie_pair :: "jsstring \<times> jsstring \<Rightarrow> jsstring" where
  "cookie_pair c = (if fst c = [] then snd c else fst c @ EQUALS # snd c)"

fun cookie_get :: "jar \<Rightarrow> jsstring" where
  "cookie_get [] = []"
| "cookie_get [c] = cookie_pair c"
| "cookie_get (c # d # cs) = cookie_pair c @ SEMICOLON # SPACE # cookie_get (d # cs)"

definition is_wsp :: "jschar \<Rightarrow> bool" where
  "is_wsp c = (c = SPACE \<or> c = TAB)"



section \<open>An example of a cookie surface\<close>

text \<open>
  A cookie store for the example states, after RFC 6265 as browsers implement it, for the
  host-only cookies of one host. A stored cookie is a name, a value and a path; a cookie
  is identified by its name and its path. A read shows all cookies of the store (the
  example pages lie under the paths of their cookies). A write is cut at the first
  \<^verbatim>\<open>;\<close> into the name-value pair and the attributes; name and value are trimmed of
  spaces and tabs, and a pair without \<^verbatim>\<open>=\<close> is a value without a name. The path is
  that of the last \<^verbatim>\<open>path\<close> attribute if it starts with \<^verbatim>\<open>/\<close>, the default path
  of the page otherwise. A write is ignored when it holds a control character, when name
  and value are both empty, or when the name has the prefix \<^verbatim>\<open>__Secure-\<close> or
  \<^verbatim>\<open>__Host-\<close> and there is no \<^verbatim>\<open>secure\<close> attribute. The store knows one date, the
  epoch: a write with an \<^verbatim>\<open>expires\<close> attribute of that date removes the cookie of
  that name and path, every other write stores the cookie. The other attributes are not
  interpreted.
\<close>

type_synonym stored_cookie = "jsstring \<times> jsstring \<times> jsstring"
type_synonym cookie_store = "stored_cookie list"

definition store_text :: "cookie_store \<Rightarrow> jsstring" where
  "store_text st = cookie_get (map (\<lambda>c. (fst c, fst (snd c))) st)"

definition trim :: "jsstring \<Rightarrow> jsstring" where
  "trim s = rev (dropWhile is_wsp (rev (dropWhile is_wsp s)))"

definition to_lower :: "jschar \<Rightarrow> jschar" where
  "to_lower c = (if 0x41 \<le> c \<and> c \<le> 0x5A then c + 0x20 else c)"

definition attribute_name :: "jsstring \<Rightarrow> jsstring" where
  "attribute_name a = map to_lower (trim (takeWhile (\<lambda>c. c \<noteq> EQUALS) a))"

definition attribute_value :: "jsstring \<Rightarrow> jsstring" where
  "attribute_value a = trim (drop 1 (dropWhile (\<lambda>c. c \<noteq> EQUALS) a))"

definition is_past_expiry :: "jsstring \<Rightarrow> bool" where
  "is_past_expiry a = (attribute_name a = js ''expires'' \<and> attribute_value a = epoch_utc)"

definition is_secure_attribute :: "jsstring \<Rightarrow> bool" where
  "is_secure_attribute a = (attribute_name a = js ''secure'')"

definition has_secure_prefix :: "jsstring \<Rightarrow> bool" where
  "has_secure_prefix name = (take 9 name = js ''__Secure-'' \<or> take 7 name = js ''__Host-'')"

definition is_control :: "jschar \<Rightarrow> bool" where
  "is_control c = ((c < 0x20 \<and> c \<noteq> TAB) \<or> c = 0x7F)"

definition write_path :: "jsstring \<Rightarrow> jsstring list \<Rightarrow> jsstring" where
  "write_path default_path attributes =
     fold (\<lambda>a p. if attribute_name a = js ''path''
                  then (if take 1 (attribute_value a) = js ''/'' then attribute_value a
                        else default_path)
                  else p)
          attributes default_path"

fun store_put :: "jsstring \<Rightarrow> jsstring \<Rightarrow> jsstring \<Rightarrow> cookie_store \<Rightarrow> cookie_store" where
  "store_put name val path [] = [(name, val, path)]"
| "store_put name val path (c # cs) =
     (if fst c = name \<and> snd (snd c) = path then (name, val, path) # cs
      else c # store_put name val path cs)"

definition store_write :: "jsstring \<Rightarrow> jsstring \<Rightarrow> cookie_store \<Rightarrow> cookie_store" where
  "store_write default_path s st =
     (let pair = takeWhile (\<lambda>c. c \<noteq> SEMICOLON) s;
          attributes = (case dropWhile (\<lambda>c. c \<noteq> SEMICOLON) s of
                          [] \<Rightarrow> []
                        | _ # rest \<Rightarrow> split_on SEMICOLON rest);
          name = (if EQUALS \<in> set pair then trim (takeWhile (\<lambda>c. c \<noteq> EQUALS) pair) else []);
          val = (if EQUALS \<in> set pair then trim (drop 1 (dropWhile (\<lambda>c. c \<noteq> EQUALS) pair))
                 else trim pair);
          path = write_path default_path attributes
      in if list_ex is_control s \<or> (name = [] \<and> val = []) \<or>
            (has_secure_prefix name \<and> \<not> list_ex is_secure_attribute attributes)
         then st
         else if list_ex is_past_expiry attributes
         then filter (\<lambda>c. \<not> (fst c = name \<and> snd (snd c) = path)) st
         else store_put name val path st)"

section \<open>Example states\<close>

text \<open>
  A page at the root of its site, with an undocked viewport, populated storage, two
  cookies on the path \<^verbatim>\<open>/\<close>, five console functions of its own and a resize listener
  of its own; the same page where one surface is denied; and a page under \<^verbatim>\<open>/app\<close>
  with one cookie, stored on the path \<^verbatim>\<open>/app\<close>.
\<close>

definition example_page :: "cookie_store browser" where
  "example_page =
     \<lparr>outerWidth = 1280, innerWidth = 1280, outerHeight = 800, innerHeight = 720,
      localStorage = Some [(js ''token'', js ''abc'')],
      sessionStorage = Some [(js ''tab'', js ''1'')],
      cookie = Some [(js ''a'', js ''1'', js ''/''), (js ''b'', js ''2'', js ''/'')],
      cookie_getter = store_text,
      cookie_setter = store_write (js ''/''),
      console = \<lparr>log = HostFn 0, warn = HostFn 1, error = HostFn 2, debug = HostFn 3, info = HostFn 4\<rparr>,
      window_listeners = [(''resize'', HostListener 0)],
      document_listeners = [],
      effect_runs = 0,
      trace = []\<rparr>"

definition blocked_local :: "cookie_store browser" where
  "blocked_local = example_page\<lparr>outerWidth := 1480, localStorage := None\<rparr>"

definition blocked_session :: "cookie_store browser" where
  "blocked_session = example_page\<lparr>sessionStorage := None\<rparr>"

definition blocked_cookie :: "cookie_store browser" where
  "blocked_cookie = example_page\<lparr>cookie := None\<rparr>"

definition app_page :: "cookie_store browser" where
  "app_page =
     example_page\<lparr>cookie := Some [(js ''a'', js ''1'', js ''/app'')],
                   cookie_setter := store_write (js ''/app'')\<rparr>"

abbreviation KeyDown :: "nat \<Rightarrow> bool \<Rightarrow> bool \<Rightarrow> event option" where
  "KeyDown k c s \<equiv> Some \<lparr>keyCode = Some k, ctrlKey = c, shiftKey = s\<rparr>"

definition quiet_resize_F12 :: event where
  "quiet_resize_F12 = \<lparr>keyCode = Some 123, ctrlKey = False, shiftKey = False\<rparr>"

section \<open>The calls of the wipe\<close>

lemma trace_called [simp]: "trace (called x w) = trace w @ [x]"
  by (simp add: called_def)

lemma forEach_expire_trace:
  "\<exists>ys. trace (snd (forEach_expire cs w)) = trace w @ ys"
proof (induction cs arbitrary: w)
  case Nil
  show ?case by simp
next
  case (Cons c cs)
  show ?case
  proof (cases "cookie w")
    case None
    then show ?thesis by (simp add: cookie_assign_def)
  next
    case (Some j)
    obtain ys where "trace (snd (forEach_expire cs ((called (CookieAssign (expire_cookie c)) w)\<lparr>cookie := Some (cookie_setter w (expire_cookie c) j)\<rparr>)))
       = trace ((called (CookieAssign (expire_cookie c)) w)\<lparr>cookie := Some (cookie_setter w (expire_cookie c) j)\<rparr>) @ ys"
      using Cons.IH by blast
    with Some show ?thesis by (simp add: cookie_assign_def)
  qed
qed

lemma handleDevToolsOpen_trace:
  "\<exists>ys. trace (snd (handleDevToolsOpen w)) = trace w @ LocalStorageClear # ys"
proof (cases "localStorage w")
  case None
  then show ?thesis by (simp add: handleDevToolsOpen_def localStorage_clear_def)
next
  case L: (Some l)
  show ?thesis
  proof (cases "sessionStorage w")
    case None
    with L show ?thesis
      by (simp add: handleDevToolsOpen_def localStorage_clear_def sessionStorage_clear_def called_def)
  next
    case S: (Some s)
    show ?thesis
    proof (cases "cookie w")
      case None
      with L S show ?thesis
        by (simp add: handleDevToolsOpen_def localStorage_clear_def sessionStorage_clear_def
            cookie_read_def called_def)
    next
      case (Some j)
      let ?w3 = "called CookieRead ((called SessionStorageClear ((called LocalStorageClear w)\<lparr>localStorage := Some []\<rparr>))\<lparr>sessionStorage := Some []\<rparr>)"
      obtain ys where "trace (snd (forEach_expire (split_on SEMICOLON (cookie_getter w j)) ?w3)) = trace ?w3 @ ys"
        using forEach_expire_trace by blast
      with L S Some show ?thesis
        by (simp add: handleDevToolsOpen_def localStorage_clear_def sessionStorage_clear_def
            cookie_read_def called_def)
    qed
  qed
qed

lemma reaction_ran_handleDevToolsOpen: "reaction_ran w (handleDevToolsOpen w)"
  using handleDevToolsOpen_trace [of w] by (auto simp: reaction_ran_def new_calls_def)

lemma not_reaction_ran_Returned: "\<not> reaction_ran w (r, w)"
  by (simp add: reaction_ran_def new_calls_def)

lemma forEach_expire_frame:
  "forEach_expire cs (w\<lparr>trace := t\<rparr>) =
     (fst (forEach_expire cs w),
      (snd (forEach_expire cs w))\<lparr>trace := t @ drop (length (trace w)) (trace (snd (forEach_expire cs w)))\<rparr>)"
proof (induction cs arbitrary: w t)
  case Nil
  show ?case by simp
next
  case (Cons c cs)
  show ?case
  proof (cases "cookie w")
    case None
    then show ?thesis by (simp add: cookie_assign_def called_def)
  next
    case (Some j)
    let ?s = "expire_cookie c"
    let ?w = "w\<lparr>cookie := Some (cookie_setter w ?s j), trace := trace w @ [CookieAssign ?s]\<rparr>"
    have a: "forEach_expire (c # cs) w = forEach_expire cs ?w"
      using Some by (cases w) (simp add: cookie_assign_def called_def)
    have b: "forEach_expire (c # cs) (w\<lparr>trace := t\<rparr>) = forEach_expire cs (?w\<lparr>trace := t @ [CookieAssign ?s]\<rparr>)"
      using Some by (cases w) (simp add: cookie_assign_def called_def)
    obtain ys where ys: "trace (snd (forEach_expire cs ?w)) = trace ?w @ ys"
      using forEach_expire_trace by blast
    show ?thesis
      unfolding a b Cons.IH [where w = ?w and t = "t @ [CookieAssign ?s]"] using ys by simp
  qed
qed

lemma handleDevToolsOpen_frame:
  "handleDevToolsOpen (w\<lparr>trace := t\<rparr>) =
     (fst (handleDevToolsOpen w),
      (snd (handleDevToolsOpen w))\<lparr>trace := t @ new_calls w (handleDevToolsOpen w)\<rparr>)"
proof (cases "localStorage w")
  case None
  then show ?thesis by (simp add: handleDevToolsOpen_def localStorage_clear_def new_calls_def called_def)
next
  case L: (Some l)
  show ?thesis
  proof (cases "sessionStorage w")
    case None
    with L show ?thesis
      by (simp add: handleDevToolsOpen_def localStorage_clear_def sessionStorage_clear_def called_def new_calls_def)
  next
    case S: (Some s)
    show ?thesis
    proof (cases "cookie w")
      case None
      with L S show ?thesis
        by (simp add: handleDevToolsOpen_def localStorage_clear_def sessionStorage_clear_def
            cookie_read_def called_def new_calls_def)
    next
      case (Some j)
      let ?w3 = "w\<lparr>localStorage := Some [], sessionStorage := Some [], trace := trace w @ [LocalStorageClear, SessionStorageClear, CookieRead]\<rparr>"
      let ?segs = "split_on SEMICOLON (cookie_getter w j)"
      have a: "handleDevToolsOpen w = forEach_expire ?segs ?w3"
        using L S Some
        by (cases w) (simp add: handleDevToolsOpen_def localStorage_clear_def sessionStorage_clear_def
            cookie_read_def called_def)
      have b: "handleDevToolsOpen (w\<lparr>trace := t\<rparr>) = forEach_expire ?segs (?w3\<lparr>trace := t @ [LocalStorageClear, SessionStorageClear, CookieRead]\<rparr>)"
        using L S Some
        by (cases w) (simp add: handleDevToolsOpen_def localStorage_clear_def sessionStorage_clear_def
            cookie_read_def called_def)
      obtain ys where ys: "trace (snd (forEach_expire ?segs ?w3)) = trace ?w3 @ ys"
        using forEach_expire_trace by blast
      show ?thesis
        unfolding b forEach_expire_frame [where cs = ?segs and w = ?w3 and t = "t @ [LocalStorageClear, SessionStorageClear, CookieRead]"] unfolding a new_calls_def using ys by simp
    qed
  qed
qed

lemma handleDevToolsOpen_outcome:
  "fst (handleDevToolsOpen (w :: 'j browser)) =
     (if localStorage w = None \<or> sessionStorage w = None \<or> cookie w = None
      then Threw SecurityError else Returned)"
proof -
  have "fst (forEach_expire cs v) = Returned" if "cookie v \<noteq> None"
    for cs and v :: "'j browser"
    using that
    by (induction cs arbitrary: v) (auto simp: cookie_assign_def called_def)
  then show ?thesis
    by (auto simp: handleDevToolsOpen_def localStorage_clear_def sessionStorage_clear_def
        cookie_read_def called_def split: option.splits)
qed

lemma handleDevToolsOpen_called:
  "handleDevToolsOpen (called x w) =
     (fst (handleDevToolsOpen w),
      (snd (handleDevToolsOpen w))\<lparr>trace := trace w @ x # new_calls w (handleDevToolsOpen w)\<rparr>)"
  unfolding called_def handleDevToolsOpen_frame [where w = w and t = "trace w @ [x]"] by simp

lemma new_calls_handleDevToolsOpen_called:
  "new_calls w (handleDevToolsOpen (called x w)) = x # new_calls w (handleDevToolsOpen w)"
  by (simp add: handleDevToolsOpen_called) (simp add: new_calls_def)

lemma hd_new_calls_handleDevToolsOpen:
  "take 1 (new_calls w (handleDevToolsOpen w)) = [LocalStorageClear]"
  using handleDevToolsOpen_trace [of w] by (auto simp: new_calls_def)

lemma forEach_expire_available:
  "cookie w = Some j \<Longrightarrow>
   forEach_expire segs w =
     (Returned, w\<lparr>cookie := Some (fold (\<lambda>seg. cookie_setter w (expire_cookie seg)) segs j),
                  trace := trace w @ map (\<lambda>seg. CookieAssign (expire_cookie seg)) segs\<rparr>)"
proof (induction segs arbitrary: w j)
  case Nil
  then show ?case by (cases w) simp
next
  case (Cons c cs)
  let ?w = "(called (CookieAssign (expire_cookie c)) w)\<lparr>cookie := Some (cookie_setter w (expire_cookie c) j)\<rparr>"
  have "forEach_expire (c # cs) w = forEach_expire cs ?w"
    using Cons.prems by (simp add: cookie_assign_def)
  also have "\<dots> = (Returned, ?w\<lparr>cookie := Some (fold (\<lambda>seg. cookie_setter ?w (expire_cookie seg)) cs (cookie_setter w (expire_cookie c) j)),
                  trace := trace ?w @ map (\<lambda>seg. CookieAssign (expire_cookie seg)) cs\<rparr>)"
    by (rule Cons.IH) simp
  also have "\<dots> = (Returned, w\<lparr>cookie := Some (fold (\<lambda>seg. cookie_setter w (expire_cookie seg)) (c # cs) j),
                  trace := trace w @ map (\<lambda>seg. CookieAssign (expire_cookie seg)) (c # cs)\<rparr>)"
    by (cases w) (simp add: called_def)
  finally show ?case .
qed

lemma handleDevToolsOpen_available:
  assumes "localStorage w = Some ls" and "sessionStorage w = Some ss" and "cookie w = Some j"
  shows "handleDevToolsOpen w =
     (Returned, w\<lparr>localStorage := Some [], sessionStorage := Some [],
                  cookie := Some (fold (\<lambda>seg. cookie_setter w (expire_cookie seg)) (split_on SEMICOLON (cookie_getter w j)) j),
                  trace := trace w @ [LocalStorageClear, SessionStorageClear, CookieRead] @
                           map CookieAssign (expiry_assignments (cookie_getter w j))\<rparr>)"
proof -
  let ?w3 = "called CookieRead ((called SessionStorageClear ((called LocalStorageClear w)\<lparr>localStorage := Some []\<rparr>))\<lparr>sessionStorage := Some []\<rparr>)"
  have c: "cookie ?w3 = Some j" using assms(3) by (simp add: called_def)
  have "handleDevToolsOpen w = forEach_expire (split_on SEMICOLON (cookie_getter w j)) ?w3"
    using assms
    by (simp add: handleDevToolsOpen_def localStorage_clear_def sessionStorage_clear_def
        cookie_read_def called_def)
  also note forEach_expire_available [OF c]
  finally show ?thesis
    by (cases w) (simp add: called_def expiry_assignments_def comp_def)
qed

section \<open>A surface that throws\<close>

text \<open>
  Where \<^verbatim>\<open>localStorage\<close> is denied, the wipe throws at its first call: the session
  storage keeps its entry, the cookies stay, and neither is attempted. So a failing surface
  does prevent the others from completing.
\<close>

theorem wipe_abandons_session_and_cookies:
  "fst (handleDevToolsOpen blocked_local) = Threw SecurityError \<and>
   new_calls blocked_local (handleDevToolsOpen blocked_local) = [LocalStorageClear] \<and>
   sessionStorage (snd (handleDevToolsOpen blocked_local)) = Some [(js ''tab'', js ''1'')] \<and>
   cookie (snd (handleDevToolsOpen blocked_local)) =
     Some [(js ''a'', js ''1'', js ''/''), (js ''b'', js ''2'', js ''/'')]"
  by (simp add: handleDevToolsOpen_def localStorage_clear_def called_def new_calls_def
      blocked_local_def example_page_def)

text \<open>
  Claim C2, as the code has it. The wipe runs its three sub-operations in the order local
  storage, session storage, cookies, and contains no handler for a throw: the first
  sub-operation that throws ends the wipe with that error. The sub-operations before it
  have completed, those after it are not attempted and their surfaces are left as they
  were.
\<close>

theorem wipe_stops_at_first_throw:
  "(localStorage w = None \<longrightarrow>
      fst (handleDevToolsOpen w) = Threw SecurityError \<and>
      new_calls w (handleDevToolsOpen w) = [LocalStorageClear] \<and>
      sessionStorage (snd (handleDevToolsOpen w)) = sessionStorage w \<and>
      cookie (snd (handleDevToolsOpen w)) = cookie w) \<and>
   (localStorage w \<noteq> None \<and> sessionStorage w = None \<longrightarrow>
      fst (handleDevToolsOpen w) = Threw SecurityError \<and>
      new_calls w (handleDevToolsOpen w) = [LocalStorageClear, SessionStorageClear] \<and>
      localStorage (snd (handleDevToolsOpen w)) = Some [] \<and>
      cookie (snd (handleDevToolsOpen w)) = cookie w) \<and>
   (localStorage w \<noteq> None \<and> sessionStorage w \<noteq> None \<and> cookie w = None \<longrightarrow>
      fst (handleDevToolsOpen w) = Threw SecurityError \<and>
      new_calls w (handleDevToolsOpen w) = [LocalStorageClear, SessionStorageClear, CookieRead] \<and>
      localStorage (snd (handleDevToolsOpen w)) = Some [] \<and>
      sessionStorage (snd (handleDevToolsOpen w)) = Some [])"
  by (auto simp: handleDevToolsOpen_def localStorage_clear_def sessionStorage_clear_def
      cookie_read_def called_def new_calls_def)

theorem wipe_stops_at_first_throw_witness:
  "(localStorage blocked_local = None \<and>
      new_calls blocked_local (handleDevToolsOpen blocked_local) = [LocalStorageClear] \<and>
      sessionStorage (snd (handleDevToolsOpen blocked_local)) = Some [(js ''tab'', js ''1'')]) \<and>
   (localStorage blocked_session \<noteq> None \<and> sessionStorage blocked_session = None \<and>
      new_calls blocked_session (handleDevToolsOpen blocked_session) = [LocalStorageClear, SessionStorageClear] \<and>
      localStorage (snd (handleDevToolsOpen blocked_session)) = Some []) \<and>
   (localStorage blocked_cookie \<noteq> None \<and> sessionStorage blocked_cookie \<noteq> None \<and> cookie blocked_cookie = None \<and>
      new_calls blocked_cookie (handleDevToolsOpen blocked_cookie) = [LocalStorageClear, SessionStorageClear, CookieRead] \<and>
      sessionStorage (snd (handleDevToolsOpen blocked_cookie)) = Some [])"
  using wipe_stops_at_first_throw [of blocked_local]
    wipe_stops_at_first_throw [of blocked_session]
    wipe_stops_at_first_throw [of blocked_cookie]
  by (simp add: blocked_local_def blocked_session_def blocked_cookie_def example_page_def)

section \<open>The detector\<close>

text \<open>
  Claim C4. For a resize event, which has no \<open>keyCode\<close>, the wipe runs exactly when the
  outer width exceeds the inner width by more than 160 or the outer height exceeds the
  inner height by more than 160; when both differences are at most 160 the handler returns
  and changes nothing.
\<close>

theorem resize_classification:
  assumes "keyCode ev = None"
  shows "reaction_ran w (detectDevTools (Some ev) w) =
           (outerWidth w - innerWidth w > 160 \<or> outerHeight w - innerHeight w > 160) \<and>
         (outerWidth w - innerWidth w > 160 \<or> outerHeight w - innerHeight w > 160 \<longrightarrow>
            detectDevTools (Some ev) w = handleDevToolsOpen w) \<and>
         (outerWidth w - innerWidth w \<le> 160 \<and> outerHeight w - innerHeight w \<le> 160 \<longrightarrow>
            detectDevTools (Some ev) w = (Returned, w))"
  using assms reaction_ran_handleDevToolsOpen [of w] not_reaction_ran_Returned [of w Returned]
  by (auto simp: detectDevTools_def)

theorem resize_classification_witness:
  "keyCode \<lparr>keyCode = None, ctrlKey = False, shiftKey = False\<rparr> = None \<and>
   reaction_ran (example_page\<lparr>outerHeight := 881\<rparr>)
     (detectDevTools (Some \<lparr>keyCode = None, ctrlKey = False, shiftKey = False\<rparr>)
        (example_page\<lparr>outerHeight := 881\<rparr>)) \<and>
   detectDevTools (Some \<lparr>keyCode = None, ctrlKey = False, shiftKey = False\<rparr>)
     (example_page\<lparr>outerHeight := 880\<rparr>) = (Returned, example_page\<lparr>outerHeight := 880\<rparr>)"
proof -
  have h: "keyCode \<lparr>keyCode = None, ctrlKey = False, shiftKey = False\<rparr> = None" by simp
  have a: "outerHeight (example_page\<lparr>outerHeight := 881\<rparr>) - innerHeight (example_page\<lparr>outerHeight := 881\<rparr>) > 160"
    by (simp add: example_page_def)
  have b: "outerWidth (example_page\<lparr>outerHeight := 880\<rparr>) - innerWidth (example_page\<lparr>outerHeight := 880\<rparr>) \<le> 160 \<and>
      outerHeight (example_page\<lparr>outerHeight := 880\<rparr>) - innerHeight (example_page\<lparr>outerHeight := 880\<rparr>) \<le> 160"
    by (simp add: example_page_def)
  show ?thesis
    using h a b resize_classification [OF h, of "example_page\<lparr>outerHeight := 881\<rparr>"]
      resize_classification [OF h, of "example_page\<lparr>outerHeight := 880\<rparr>"]
    by blast
qed

text \<open>
  Claim C5. For a key-down event with key code \<open>k\<close> and modifiers \<open>c\<close> (Ctrl) and
  \<open>s\<close> (Shift), the wipe runs exactly when Ctrl and Shift are held and \<open>k\<close> is 73, 74
  or 67, or Ctrl is held and \<open>k\<close> is 85, or \<open>k\<close> is 123; otherwise the handler returns
  and changes nothing. So it runs for (73, true, true), (74, true, true),
  (67, true, true), (85, true, false) and for 123 with any modifiers, and not for
  (65, false, false).
\<close>

theorem keydown_classification:
  "reaction_ran w (disableKeyboardShortcuts (KeyDown k c s) w) =
     ((c \<and> s \<and> k \<in> {73, 74, 67}) \<or> (c \<and> k = 85) \<or> k = 123) \<and>
   (disableKeyboardShortcuts (KeyDown k c s) w = (Returned, w)) =
     (\<not> ((c \<and> s \<and> k \<in> {73, 74, 67}) \<or> (c \<and> k = 85) \<or> k = 123)) \<and>
   ((c \<and> s \<and> k \<in> {73, 74, 67}) \<or> (c \<and> k = 85) \<or> k = 123 \<longrightarrow>
      disableKeyboardShortcuts (KeyDown k c s) w = handleDevToolsOpen (called PreventDefault w)) \<and>
   reaction_ran w (disableKeyboardShortcuts (KeyDown 73 True True) w) \<and>
   reaction_ran w (disableKeyboardShortcuts (KeyDown 74 True True) w) \<and>
   reaction_ran w (disableKeyboardShortcuts (KeyDown 67 True True) w) \<and>
   reaction_ran w (disableKeyboardShortcuts (KeyDown 85 True False) w) \<and>
   reaction_ran w (disableKeyboardShortcuts (KeyDown 123 c s) w) \<and>
   disableKeyboardShortcuts (KeyDown 65 False False) w = (Returned, w)"
proof -
  have "reaction_ran w (handleDevToolsOpen (called PreventDefault w))"
    using reaction_ran_handleDevToolsOpen [of w]
    by (simp add: reaction_ran_def new_calls_handleDevToolsOpen_called)
  then show ?thesis
    using not_reaction_ran_Returned [of w Returned]
    by (auto simp: disableKeyboardShortcuts_def)
qed

theorem keydown_classification_witness:
  "reaction_ran example_page (disableKeyboardShortcuts (KeyDown 74 True True) example_page) \<and>
   \<not> reaction_ran example_page (disableKeyboardShortcuts (KeyDown 74 True False) example_page) \<and>
   \<not> reaction_ran example_page (disableKeyboardShortcuts (KeyDown 85 False True) example_page) \<and>
   reaction_ran example_page (disableKeyboardShortcuts (KeyDown 123 False False) example_page) \<and>
   disableKeyboardShortcuts (KeyDown 65 False False) example_page = (Returned, example_page)"
  using keydown_classification [of example_page 74 True True, THEN conjunct1]
    keydown_classification [of example_page 74 True False, THEN conjunct1]
    keydown_classification [of example_page 85 False True, THEN conjunct1]
    keydown_classification [of example_page 123 False False, THEN conjunct1]
    keydown_classification [of example_page 65 False False, THEN conjunct2, THEN conjunct1]
  by simp

text \<open>
  Claim C6. The context-menu handler looks at nothing in its event: for every event it
  calls \<^verbatim>\<open>preventDefault\<close> and then runs the wipe. Whenever the key-down handler runs
  the wipe, it has called \<^verbatim>\<open>preventDefault\<close> first. In both, the first two calls are
  \<^verbatim>\<open>preventDefault\<close> and then the first call of the wipe.
\<close>

theorem contextmenu_and_keydown_prevent_default_first:
  "disableRightClick (Some ev) w = handleDevToolsOpen (called PreventDefault w) \<and>
   reaction_ran w (disableRightClick (Some ev) w) \<and>
   take 2 (new_calls w (disableRightClick (Some ev) w)) = [PreventDefault, LocalStorageClear] \<and>
   (reaction_ran w (disableKeyboardShortcuts (Some ev) w) \<longrightarrow>
      disableKeyboardShortcuts (Some ev) w = handleDevToolsOpen (called PreventDefault w) \<and>
      take 2 (new_calls w (disableKeyboardShortcuts (Some ev) w)) = [PreventDefault, LocalStorageClear])"
proof -
  have a: "take 2 (new_calls w (handleDevToolsOpen (called PreventDefault w))) = [PreventDefault, LocalStorageClear]"
    using hd_new_calls_handleDevToolsOpen [of w]
    by (simp add: new_calls_handleDevToolsOpen_called numeral_2_eq_2)
  then have b: "reaction_ran w (handleDevToolsOpen (called PreventDefault w))"
    using reaction_ran_handleDevToolsOpen [of w]
    by (simp add: reaction_ran_def new_calls_handleDevToolsOpen_called)
  have c: "disableKeyboardShortcuts (Some ev) w = handleDevToolsOpen (called PreventDefault w)"
    if "reaction_ran w (disableKeyboardShortcuts (Some ev) w)"
    using that not_reaction_ran_Returned [of w Returned]
    by (auto simp: disableKeyboardShortcuts_def split: if_splits)
  show ?thesis
    using a b c by (auto simp: disableRightClick_def)
qed

theorem contextmenu_and_keydown_prevent_default_first_witness:
  "reaction_ran example_page (disableKeyboardShortcuts (KeyDown 85 True False) example_page) \<and>
   take 2 (new_calls example_page (disableKeyboardShortcuts (KeyDown 85 True False) example_page)) =
     [PreventDefault, LocalStorageClear] \<and>
   take 2 (new_calls example_page (disableRightClick (KeyDown 0 False False) example_page)) =
     [PreventDefault, LocalStorageClear]"
proof -
  have h: "reaction_ran example_page (disableKeyboardShortcuts (KeyDown 85 True False) example_page)"
    using reaction_ran_handleDevToolsOpen [of example_page]
    by (simp add: disableKeyboardShortcuts_def reaction_ran_def new_calls_handleDevToolsOpen_called)
  show ?thesis
    using h contextmenu_and_keydown_prevent_default_first
      [of "\<lparr>keyCode = Some 85, ctrlKey = True, shiftKey = False\<rparr>" example_page]
      contextmenu_and_keydown_prevent_default_first
      [of "\<lparr>keyCode = Some 0, ctrlKey = False, shiftKey = False\<rparr>" example_page]
    by blast
qed

text \<open>
  Claim C7. When the event handed to the resize handler carries the key code 123, the wipe
  runs whatever the viewport readings are, and it is the wipe of a key-down event with
  that code: the same outcome and the same storage and cookies afterwards, the calls of
  the key-down handler being those of the resize handler after its \<^verbatim>\<open>preventDefault\<close>.
\<close>

theorem resize_with_F12_keycode:
  assumes "keyCode ev = Some 123"
  shows "detectDevTools (Some ev) w = handleDevToolsOpen w \<and>
         reaction_ran w (detectDevTools (Some ev) w) \<and>
         fst (detectDevTools (Some ev) w) = fst (disableKeyboardShortcuts (Some ev) w) \<and>
         localStorage (snd (detectDevTools (Some ev) w)) =
           localStorage (snd (disableKeyboardShortcuts (Some ev) w)) \<and>
         sessionStorage (snd (detectDevTools (Some ev) w)) =
           sessionStorage (snd (disableKeyboardShortcuts (Some ev) w)) \<and>
         cookie (snd (detectDevTools (Some ev) w)) =
           cookie (snd (disableKeyboardShortcuts (Some ev) w)) \<and>
         new_calls w (disableKeyboardShortcuts (Some ev) w) =
           PreventDefault # new_calls w (detectDevTools (Some ev) w)"
proof -
  have a: "detectDevTools (Some ev) w = handleDevToolsOpen w"
    using assms by (simp add: detectDevTools_def)
  have b: "disableKeyboardShortcuts (Some ev) w = handleDevToolsOpen (called PreventDefault w)"
    using assms by (simp add: disableKeyboardShortcuts_def)
  show ?thesis
    unfolding a b using reaction_ran_handleDevToolsOpen [of w]
    by (simp add: new_calls_handleDevToolsOpen_called) (simp add: handleDevToolsOpen_called)
qed

theorem resize_with_F12_keycode_witness:
  "keyCode quiet_resize_F12 = Some 123 \<and>
   \<not> (outerWidth example_page - innerWidth example_page > 160) \<and>
   \<not> (outerHeight example_page - innerHeight example_page > 160) \<and>
   reaction_ran example_page (detectDevTools (Some quiet_resize_F12) example_page) \<and>
   new_calls example_page (disableKeyboardShortcuts (Some quiet_resize_F12) example_page) =
     PreventDefault # new_calls example_page (detectDevTools (Some quiet_resize_F12) example_page)"
proof -
  have h: "keyCode quiet_resize_F12 = Some 123" by (simp add: quiet_resize_F12_def)
  have g: "\<not> (outerWidth example_page - innerWidth example_page > 160) \<and>
   \<not> (outerHeight example_page - innerHeight example_page > 160)"
    by (simp add: example_page_def)
  show ?thesis
    using h g resize_with_F12_keycode [OF h, of example_page] by blast
qed

text \<open>
  The resize handler called without an event does throw where \<^verbatim>\<open>localStorage\<close> is
  denied and the outer width exceeds the inner width by 200: the error of the wipe passes
  through it.
\<close>

theorem resize_without_event_throws:
  "fst (detectDevTools None blocked_local) = Threw SecurityError"
  by (simp add: detectDevTools_def handleDevToolsOpen_def localStorage_clear_def
      blocked_local_def example_page_def)

text \<open>
  Claim C10, as the code has it. Called without an event, the resize handler raises no
  error of its own, the test of the key code being an optional access: it never throws a
  \<open>TypeError\<close>, it runs the wipe exactly when one of the two thresholds is exceeded, and
  it throws exactly when that wipe does, that is when a threshold is exceeded and a storage
  area or the cookies are denied.
\<close>

theorem resize_without_event:
  "detectDevTools None w =
     (if outerWidth w - innerWidth w > 160 \<or> outerHeight w - innerHeight w > 160
      then handleDevToolsOpen w else (Returned, w)) \<and>
   reaction_ran w (detectDevTools None w) =
     (outerWidth w - innerWidth w > 160 \<or> outerHeight w - innerHeight w > 160) \<and>
   fst (detectDevTools None w) \<noteq> Threw TypeError \<and>
   (fst (detectDevTools None w) = Threw SecurityError) =
     ((outerWidth w - innerWidth w > 160 \<or> outerHeight w - innerHeight w > 160) \<and>
      (localStorage w = None \<or> sessionStorage w = None \<or> cookie w = None))"
  using reaction_ran_handleDevToolsOpen [of w] not_reaction_ran_Returned [of w Returned]
  by (auto simp: detectDevTools_def handleDevToolsOpen_outcome)

theorem resize_without_event_witness:
  "reaction_ran blocked_cookie (detectDevTools None blocked_cookie) = False \<and>
   fst (detectDevTools None blocked_cookie) = Returned \<and>
   reaction_ran (example_page\<lparr>outerHeight := 1000\<rparr>) (detectDevTools None (example_page\<lparr>outerHeight := 1000\<rparr>)) \<and>
   fst (detectDevTools None (example_page\<lparr>outerHeight := 1000\<rparr>)) \<noteq> Threw SecurityError"
  using resize_without_event [of blocked_cookie] resize_without_event [of "example_page\<lparr>outerHeight := 1000\<rparr>"]
  by (auto simp: blocked_cookie_def example_page_def handleDevToolsOpen_outcome)

section \<open>The console and the subscriptions\<close>

lemma removeEventListener_idem:
  "removeEventListener t cb (removeEventListener t cb ls) = removeEventListener t cb ls"
  by (simp add: removeEventListener_def)

lemma removeEventListener_absent:
  "(t, cb) \<notin> set (removeEventListener t cb ls)"
  by (simp add: removeEventListener_def)

text \<open>
  Claim C9. The cleanup function returns without error, and a second call returns without
  error and changes nothing: after the first call none of the three listeners of the effect
  is subscribed, and the console is as the first call left it.
\<close>

theorem cleanup_twice:
  "fst (cleanup c w) = Returned \<and>
   cleanup c (snd (cleanup c w)) = (Returned, snd (cleanup c w)) \<and>
   (''resize'', c_detectDevTools c) \<notin> set (window_listeners (snd (cleanup c w))) \<and>
   (''contextmenu'', c_disableRightClick c) \<notin> set (document_listeners (snd (cleanup c w))) \<and>
   (''keydown'', c_disableKeyboardShortcuts c) \<notin> set (document_listeners (snd (cleanup c w))) \<and>
   console (snd (cleanup c (snd (cleanup c w)))) = console (snd (cleanup c w))"
proof -
  have a: "cleanup c (snd (cleanup c w)) = (Returned, snd (cleanup c w))"
    by (cases w) (simp add: cleanup_def removeEventListener_def)
  have b: "(''contextmenu'', c_disableRightClick c) \<notin> set (document_listeners (snd (cleanup c w)))"
    by (simp add: cleanup_def removeEventListener_def)
  show ?thesis
    unfolding a using b by (simp add: cleanup_def removeEventListener_def)
qed

theorem cleanup_twice_witness:
  "window_listeners (snd (useAntiInspect_effect example_page)) =
     [(''resize'', HostListener 0), (''resize'', DetectDevTools 0)] \<and>
   document_listeners (snd (useAntiInspect_effect example_page)) =
     [(''contextmenu'', DisableRightClick 0), (''keydown'', DisableKeyboardShortcuts 0)] \<and>
   window_listeners (snd (cleanup (fst (useAntiInspect_effect example_page))
       (snd (useAntiInspect_effect example_page)))) = [(''resize'', HostListener 0)] \<and>
   document_listeners (snd (cleanup (fst (useAntiInspect_effect example_page))
       (snd (useAntiInspect_effect example_page)))) = [] \<and>
   cleanup (fst (useAntiInspect_effect example_page))
     (snd (cleanup (fst (useAntiInspect_effect example_page)) (snd (useAntiInspect_effect example_page)))) =
   (Returned, snd (cleanup (fst (useAntiInspect_effect example_page)) (snd (useAntiInspect_effect example_page))))"
proof -
  have "window_listeners (snd (useAntiInspect_effect example_page)) =
     [(''resize'', HostListener 0), (''resize'', DetectDevTools 0)] \<and>
   document_listeners (snd (useAntiInspect_effect example_page)) =
     [(''contextmenu'', DisableRightClick 0), (''keydown'', DisableKeyboardShortcuts 0)] \<and>
   window_listeners (snd (cleanup (fst (useAntiInspect_effect example_page))
       (snd (useAntiInspect_effect example_page)))) = [(''resize'', HostListener 0)] \<and>
   document_listeners (snd (cleanup (fst (useAntiInspect_effect example_page))
       (snd (useAntiInspect_effect example_page)))) = []"
    by (simp add: useAntiInspect_effect_def cleanup_def example_page_def Let_def
        addEventListener_def removeEventListener_def)
  then show ?thesis
    using cleanup_twice [of "fst (useAntiInspect_effect example_page)" "snd (useAntiInspect_effect example_page)"]
    by blast
qed

text \<open>
  Claim C1, at a page whose five console functions are its own: the effect replaces all
  five by empty functions, and the cleanup puts back \<^verbatim>\<open>console.log\<close> only. The slots
  \<open>warn\<close>, \<open>error\<close>, \<open>debug\<close> and \<open>info\<close> still hold the empty functions of the
  effect after the cleanup, not the functions they held before.
\<close>

theorem cleanup_leaves_four_slots_silenced:
  "console example_page =
     \<lparr>log = HostFn 0, warn = HostFn 1, error = HostFn 2, debug = HostFn 3, info = HostFn 4\<rparr> \<and>
   console (snd (useAntiInspect_effect example_page)) =
     \<lparr>log = EmptyFn 0 ''log'', warn = EmptyFn 0 ''warn'', error = EmptyFn 0 ''error'',
      debug = EmptyFn 0 ''debug'', info = EmptyFn 0 ''info''\<rparr> \<and>
   console (snd (cleanup (fst (useAntiInspect_effect example_page))
                         (snd (useAntiInspect_effect example_page)))) =
     \<lparr>log = HostFn 0, warn = EmptyFn 0 ''warn'', error = EmptyFn 0 ''error'',
      debug = EmptyFn 0 ''debug'', info = EmptyFn 0 ''info''\<rparr>"
  by (simp add: useAntiInspect_effect_def cleanup_def example_page_def Let_def)

lemma cleanup_restores_log:
  "log (console (snd (cleanup (fst (useAntiInspect_effect w)) (snd (useAntiInspect_effect w))))) =
   log (console w)"
  by (simp add: useAntiInspect_effect_def cleanup_def Let_def)

lemma cleanup_keeps_other_slots_empty:
  "warn (console (snd (cleanup (fst (useAntiInspect_effect w)) (snd (useAntiInspect_effect w))))) =
     EmptyFn (effect_runs w) ''warn'' \<and>
   error (console (snd (cleanup (fst (useAntiInspect_effect w)) (snd (useAntiInspect_effect w))))) =
     EmptyFn (effect_runs w) ''error'' \<and>
   debug (console (snd (cleanup (fst (useAntiInspect_effect w)) (snd (useAntiInspect_effect w))))) =
     EmptyFn (effect_runs w) ''debug'' \<and>
   info (console (snd (cleanup (fst (useAntiInspect_effect w)) (snd (useAntiInspect_effect w))))) =
     EmptyFn (effect_runs w) ''info''"
  by (simp add: useAntiInspect_effect_def cleanup_def Let_def)

lemma console_silent_while_active:
  "f \<in> {log (console (snd (useAntiInspect_effect w))), warn (console (snd (useAntiInspect_effect w))),
         error (console (snd (useAntiInspect_effect w))), debug (console (snd (useAntiInspect_effect w))),
         info (console (snd (useAntiInspect_effect w)))} \<Longrightarrow> invoke host f args = []"
  by (auto simp: useAntiInspect_effect_def Let_def invoke_def)

section \<open>The cookie assignments\<close>

lemma split_on_no_separator: "d \<notin> set s \<Longrightarrow> split_on d s = [s]"
proof -
  assume "d \<notin> set s"
  then have h: "dropWhile (\<lambda>c. c \<noteq> d) s = []" by auto
  show ?thesis by (subst split_on.simps) (simp only: h list.case)
qed




















section \<open>Running the wipe again\<close>

text \<open>
  What holds of a second run whatever the cookie surface does: both storage areas are empty
  after the first run and after the second, and neither run throws; and a run on empty
  storage and a store that reads as the empty string changes nothing, if the surface
  ignores the assignment of the empty string that the run still makes.
\<close>

lemma wipe_twice_storage:
  assumes "localStorage w = Some ls" and "sessionStorage w = Some ss" and "cookie w = Some j"
  shows "fst (handleDevToolsOpen w) = Returned \<and>
         localStorage (snd (handleDevToolsOpen w)) = Some [] \<and>
         sessionStorage (snd (handleDevToolsOpen w)) = Some [] \<and>
         fst (handleDevToolsOpen (snd (handleDevToolsOpen w))) = Returned \<and>
         localStorage (snd (handleDevToolsOpen (snd (handleDevToolsOpen w)))) = Some [] \<and>
         sessionStorage (snd (handleDevToolsOpen (snd (handleDevToolsOpen w)))) = Some []"
proof -
  have first: "fst (handleDevToolsOpen w) = Returned \<and>
      localStorage (snd (handleDevToolsOpen w)) = Some [] \<and>
      sessionStorage (snd (handleDevToolsOpen w)) = Some [] \<and>
      cookie (snd (handleDevToolsOpen w)) \<noteq> None"
    by (simp add: handleDevToolsOpen_available [OF assms])
  then obtain j' where j': "cookie (snd (handleDevToolsOpen w)) = Some j'" by auto
  from first have l: "localStorage (snd (handleDevToolsOpen w)) = Some []"
    and s: "sessionStorage (snd (handleDevToolsOpen w)) = Some []" by simp_all
  show ?thesis
    using first by (simp add: handleDevToolsOpen_available [OF l s j'])
qed

lemma wipe_on_empty:
  assumes "localStorage w = Some []" and "sessionStorage w = Some []" and "cookie w = Some j"
    and "cookie_getter w j = []" and "cookie_setter w [] j = j"
  shows "handleDevToolsOpen w =
     (Returned, w\<lparr>trace := trace w @
        [LocalStorageClear, SessionStorageClear, CookieRead, CookieAssign []]\<rparr>)"
proof -
  have "split_on SEMICOLON ([] :: jsstring) = [[]]"
    by (simp add: split_on_no_separator)
  moreover have "expire_cookie [] = []"
    by (simp add: expire_cookie_def strip_leading_spaces_def replace_from_equals_def)
  ultimately have "handleDevToolsOpen w =
      (Returned, w\<lparr>localStorage := Some [], sessionStorage := Some [], cookie := Some j,
         trace := trace w @ [LocalStorageClear, SessionStorageClear, CookieRead, CookieAssign []]\<rparr>)"
    using assms(4,5)
    by (simp add: handleDevToolsOpen_available [OF assms(1-3)] expiry_assignments_def)
  moreover have "w\<lparr>localStorage := Some [], sessionStorage := Some [], cookie := Some j,
         trace := trace w @ [LocalStorageClear, SessionStorageClear, CookieRead, CookieAssign []]\<rparr> =
      w\<lparr>trace := trace w @ [LocalStorageClear, SessionStorageClear, CookieRead, CookieAssign []]\<rparr>"
    using assms(1-3) by (cases w) simp
  ultimately show ?thesis by (simp only:)
qed

lemma store_write_expiry_other_path:
  "store_write (js ''/app'') (js ''a=;expires=Thu, 01 Jan 1970 00:00:00 GMT;path=/'')
     [(js ''a'', js ''1'', js ''/app'')] = [(js ''a'', js ''1'', js ''/app'')]"
  by (simp add: store_write_def Let_def split_on.simps trim_def is_wsp_def is_control_def
      has_secure_prefix_def is_secure_attribute_def is_past_expiry_def attribute_name_def
      attribute_value_def to_lower_def write_path_def epoch_utc_def js_def)

text \<open>
  The example surface on the writes of the wipe: the expiry of a cookie stored on the path
  \<^verbatim>\<open>/\<close> removes it; a cookie with the prefix \<^verbatim>\<open>__Secure-\<close> stays, as the write
  has no \<^verbatim>\<open>secure\<close> attribute; and a cookie without a name reads as its value alone,
  which the wipe assigns back as it is.
\<close>

lemma store_write_expiry_root_path:
  "store_write (js ''/'') (js ''a=;expires=Thu, 01 Jan 1970 00:00:00 GMT;path=/'')
     [(js ''a'', js ''1'', js ''/''), (js ''b'', js ''2'', js ''/'')] = [(js ''b'', js ''2'', js ''/'')]"
  by (simp add: store_write_def Let_def split_on.simps trim_def is_wsp_def is_control_def
      has_secure_prefix_def is_secure_attribute_def is_past_expiry_def attribute_name_def
      attribute_value_def to_lower_def write_path_def epoch_utc_def js_def)

lemma store_write_expiry_secure_prefix:
  "store_write (js ''/'') (expire_cookie (js ''__Secure-s=1''))
     [(js ''__Secure-s'', js ''1'', js ''/'')] = [(js ''__Secure-s'', js ''1'', js ''/'')]"
  by (simp add: store_write_def Let_def split_on.simps trim_def is_wsp_def is_control_def
      has_secure_prefix_def is_secure_attribute_def is_past_expiry_def attribute_name_def
      attribute_value_def to_lower_def write_path_def epoch_utc_def js_def expire_cookie_def
      strip_leading_spaces_def replace_from_equals_def expiry_replacement_def
      is_line_terminator_def)

lemma store_write_nameless:
  "store_text [([], js ''v'', js ''/'')] = js ''v'' \<and>
   expire_cookie (js ''v'') = js ''v'' \<and>
   store_write (js ''/'') (js ''v'') [([], js ''v'', js ''/'')] = [([], js ''v'', js ''/'')]"
  by (simp add: store_write_def Let_def split_on.simps trim_def is_wsp_def is_control_def
      has_secure_prefix_def is_secure_attribute_def is_past_expiry_def attribute_name_def
      attribute_value_def to_lower_def write_path_def epoch_utc_def js_def expire_cookie_def
      strip_leading_spaces_def replace_from_equals_def store_text_def cookie_pair_def)

text \<open>
  Claim C8, at a page under \<^verbatim>\<open>/app\<close> whose one cookie \<open>a\<close> is stored on the path
  \<^verbatim>\<open>/app\<close>. The wipe returns and empties both storage areas, and for the cookie it
  assigns \<^verbatim>\<open>a=;expires=Thu, 01 Jan 1970 00:00:00 GMT;path=/\<close>, which names the
  cookie \<open>a\<close> of the path \<^verbatim>\<open>/\<close>: the cookie of the page is still in the store after
  the first run, and after the second, which makes the same calls again.
\<close>

theorem wipe_leaves_cookie_on_other_path:
  "cookie app_page = Some [(js ''a'', js ''1'', js ''/app'')] \<and>
   fst (handleDevToolsOpen app_page) = Returned \<and>
   localStorage (snd (handleDevToolsOpen app_page)) = Some [] \<and>
   sessionStorage (snd (handleDevToolsOpen app_page)) = Some [] \<and>
   new_calls app_page (handleDevToolsOpen app_page) =
     [LocalStorageClear, SessionStorageClear, CookieRead,
      CookieAssign (js ''a=;expires=Thu, 01 Jan 1970 00:00:00 GMT;path=/'')] \<and>
   cookie (snd (handleDevToolsOpen app_page)) = Some [(js ''a'', js ''1'', js ''/app'')] \<and>
   fst (handleDevToolsOpen (snd (handleDevToolsOpen app_page))) = Returned \<and>
   new_calls (snd (handleDevToolsOpen app_page))
       (handleDevToolsOpen (snd (handleDevToolsOpen app_page))) =
     [LocalStorageClear, SessionStorageClear, CookieRead,
      CookieAssign (js ''a=;expires=Thu, 01 Jan 1970 00:00:00 GMT;path=/'')] \<and>
   cookie (snd (handleDevToolsOpen (snd (handleDevToolsOpen app_page)))) =
     Some [(js ''a'', js ''1'', js ''/app'')]"
proof -
  have l: "localStorage app_page = Some [(js ''token'', js ''abc'')]"
    and s: "sessionStorage app_page = Some [(js ''tab'', js ''1'')]"
    and c: "cookie app_page = Some [(js ''a'', js ''1'', js ''/app'')]"
    and g: "cookie_getter app_page = store_text"
    and w: "cookie_setter app_page = store_write (js ''/app'')"
    and t: "trace app_page = []"
    by (simp_all add: app_page_def example_page_def)
  have r: "store_text [(js ''a'', js ''1'', js ''/app'')] = js ''a=1''"
    by (simp add: store_text_def cookie_pair_def js_def)
  have e: "expiry_assignments (js ''a=1'') =
      [js ''a=;expires=Thu, 01 Jan 1970 00:00:00 GMT;path=/'']"
    by (simp add: expiry_assignments_def split_on.simps expire_cookie_def
        strip_leading_spaces_def replace_from_equals_def expiry_replacement_def epoch_utc_def
        js_def is_line_terminator_def)
  have sp: "split_on SEMICOLON (js ''a=1'') = [js ''a=1'']"
    by (simp add: split_on.simps js_def)
  have ex: "expire_cookie (js ''a=1'') = js ''a=;expires=Thu, 01 Jan 1970 00:00:00 GMT;path=/''"
    using e by (simp add: expiry_assignments_def sp)
  have f: "fold (\<lambda>seg. store_write (js ''/app'') (expire_cookie seg))
      (split_on SEMICOLON (js ''a=1'')) [(js ''a'', js ''1'', js ''/app'')] =
      [(js ''a'', js ''1'', js ''/app'')]"
    by (simp add: sp ex store_write_expiry_other_path)
  let ?w1 = "app_page\<lparr>localStorage := Some [], sessionStorage := Some [],
      cookie := Some [(js ''a'', js ''1'', js ''/app'')],
      trace := [LocalStorageClear, SessionStorageClear, CookieRead,
                CookieAssign (js ''a=;expires=Thu, 01 Jan 1970 00:00:00 GMT;path=/'')]\<rparr>"
  have first: "handleDevToolsOpen app_page = (Returned, ?w1)"
    by (simp add: handleDevToolsOpen_available [OF l s c] g w t r e f)
  have l1: "localStorage ?w1 = Some []" and s1: "sessionStorage ?w1 = Some []"
    and c1: "cookie ?w1 = Some [(js ''a'', js ''1'', js ''/app'')]"
    and g1: "cookie_getter ?w1 = store_text"
    and w1: "cookie_setter ?w1 = store_write (js ''/app'')"
    by (simp_all add: g w)
  have second: "handleDevToolsOpen ?w1 =
      (Returned, ?w1\<lparr>trace := trace ?w1 @ [LocalStorageClear, SessionStorageClear, CookieRead,
                CookieAssign (js ''a=;expires=Thu, 01 Jan 1970 00:00:00 GMT;path=/'')]\<rparr>)"
    by (simp add: handleDevToolsOpen_available [OF l1 s1 c1] g w r e f)
  show ?thesis
    unfolding first using c by (simp add: second new_calls_def t)
qed

end
